theory Spec2Isabelle
  imports Complex_Main
begin

section \<open>Python values and exceptions\<close>

text \<open>
  The module \<open>hvc/audiofileIO.py\<close> is embedded function by function. The value of a
  Python float is a \<^typ>\<open>real\<close> (infinities and not-a-number are outside the model). Where
  \<open>Song\<close> multiplies or divides two floats, the rounded result that the machine computes
  is taken from the parameters \<open>float_mul\<close> and \<open>float_div\<close> below, since a truncation or a
  comparison may depend on the rounding. Python and numpy integers as \<^typ>\<open>int\<close> or \<^typ>\<open>nat\<close>. Every \<open>raise\<close> of the
  source is a value \<open>Inl e\<close> of the result type \<open>error + 'a\<close>. The strings carried by an
  exception are the message templates of the source, with the \<open>format\<close> arguments left
  unsubstituted and quotation marks around names left out; the messages of exceptions that
  Python or numpy raise themselves are abbreviated.
\<close>

datatype error =
    ValueError string
  | TypeError string
  | KeyError string
  | IndexError string
  | AttributeError string
  | UnboundLocalError string
  | ZeroDivisionError
  | FileNotFoundError
  | WindowError
  | SegmentParametersMismatchError string

text \<open>Sequencing of computations that may raise.\<close>

definition ebind :: "error + 'a \<Rightarrow> ('a \<Rightarrow> error + 'b) \<Rightarrow> error + 'b" where
  "ebind m f = (case m of Inl e \<Rightarrow> Inl e | Inr v \<Rightarrow> f v)"

text \<open>\<open>d[k]\<close> on a dictionary: a missing key raises \<open>KeyError\<close>.\<close>

definition getitem :: "(string \<rightharpoonup> 'v) \<Rightarrow> string \<Rightarrow> error + 'v" where
  "getitem d k = (case d k of None \<Rightarrow> Inl (KeyError k) | Some v \<Rightarrow> Inr v)"

text \<open>
  \<open>xs[idx]\<close> with an integer index array \<open>idx\<close> (numpy fancy indexing, all indices
  non-negative here): any index past the end raises \<open>IndexError\<close>.
\<close>

definition np_take :: "'a list \<Rightarrow> nat list \<Rightarrow> error + 'a list" where
  "np_take xs idx =
     (if list_all (\<lambda>i. i < length xs) idx then Inr (map (\<lambda>i. xs ! i) idx)
      else Inl (IndexError ''index is out of bounds''))"

text \<open>\<open>np.nonzero(mask)[0]\<close>: the positions at which a boolean array holds \<open>True\<close>.\<close>

definition np_nonzero :: "bool list \<Rightarrow> nat list" where
  "np_nonzero flags = filter (\<lambda>i. flags ! i) [0..<length flags]"

section \<open>Segmenter: \<open>segment_song\<close>\<close>

text \<open>
  \<open>np.convolve([1, -1], above_th)\<close> in full mode: entry \<open>k\<close> is
  \<open>above_th[k] - above_th[k-1]\<close> with the terms outside the array taken as \<open>0\<close>, so the
  result is one longer than \<open>above_th\<close>. numpy refuses an empty operand.
\<close>

definition np_convolve_h :: "bool list \<Rightarrow> error + int list" where
  "np_convolve_h above_th =
     (if above_th = [] then Inl (ValueError ''v cannot be empty'')
      else let a = map (\<lambda>b. if b then (1::int) else 0) above_th
           in Inr (map2 (\<lambda>x y. x - y) (a @ [0]) (0 # a)))"

text \<open>
  Lines 429 to 441: the candidate onsets and offsets. With \<open>time_bins\<close> the crossing
  positions index into \<open>time_bins\<close>; with \<open>samp_freq\<close> they are kept as sample indices.
\<close>

definition find_crossings ::
  "int list \<Rightarrow> real list option \<Rightarrow> error + (real list \<times> real list)" where
  "find_crossings above_th_convoluted time_bins =
     (let rising = np_nonzero (map (\<lambda>c. c > 0) above_th_convoluted);
          falling = np_nonzero (map (\<lambda>c. c < 0) above_th_convoluted)
      in case time_bins of
           Some tb \<Rightarrow>
             ebind (np_take tb rising) (\<lambda>onsets.
             ebind (np_take tb falling) (\<lambda>offsets. Inr (onsets, offsets)))
         | None \<Rightarrow> Inr (map real rising, map real falling))"

text \<open>
  Division of an array by \<open>samp_freq\<close> when the sample rate form is used (lines 448 to 450,
  459 to 460, 465 to 467). The sample rate is taken to be non-zero: numpy would produce
  infinities for a zero rate, which \<^typ>\<open>real\<close> does not have.
\<close>

definition to_seconds :: "real option \<Rightarrow> real list \<Rightarrow> real list" where
  "to_seconds samp_freq xs =
     (case samp_freq of Some sf \<Rightarrow> map (\<lambda>x. x / sf) xs | None \<Rightarrow> xs)"

text \<open>
  Lines 446 to 455: silent gaps that are not longer than \<open>min_silent_dur\<close> are removed by
  dropping the offset before and the onset after the gap. The first onset and the last
  offset always stay. Both arrays are non-empty here and have the same length (lemma
  \<open>find_crossings_same_length\<close> below).
\<close>

definition merge_short_gaps ::
  "real list \<Rightarrow> real list \<Rightarrow> real option \<Rightarrow> real \<Rightarrow> real list \<times> real list" where
  "merge_short_gaps onsets offsets samp_freq min_silent_dur =
     (let silent_gap_durs =
            to_seconds samp_freq (map2 (\<lambda>x y. x - y) (tl onsets) (butlast offsets));
          keep_these = np_nonzero (map (\<lambda>d. d > min_silent_dur) silent_gap_durs)
      in (hd onsets # map (\<lambda>k. tl onsets ! k) keep_these,
          map (\<lambda>k. butlast offsets ! k) keep_these @ [last offsets]))"

text \<open>Lines 457 to 463: only segments strictly longer than \<open>min_syl_dur\<close> are kept.\<close>

definition drop_short_syls ::
  "real list \<Rightarrow> real list \<Rightarrow> real option \<Rightarrow> real \<Rightarrow> real list \<times> real list" where
  "drop_short_syls onsets offsets samp_freq min_syl_dur =
     (let syl_durs = to_seconds samp_freq (map2 (\<lambda>x y. x - y) offsets onsets);
          keep_these = np_nonzero (map (\<lambda>d. d > min_syl_dur) syl_durs)
      in (map (\<lambda>k. onsets ! k) keep_these, map (\<lambda>k. offsets ! k) keep_these))"

text \<open>
  \<open>segment_song(amp, segment_params, time_bins, samp_freq)\<close>. The result \<open>Inr None\<close> is the
  source's \<open>return None, None\<close>; \<open>Inr (Some (onsets, offsets))\<close> is the pair of arrays.
\<close>

definition segment_song ::
  "real list \<Rightarrow> (string \<rightharpoonup> real) \<Rightarrow> real list option \<Rightarrow> real option
     \<Rightarrow> error + (real list \<times> real list) option" where
  "segment_song amp segment_params time_bins samp_freq =
     (if time_bins = None \<and> samp_freq = None then
        Inl (ValueError
          ''Values needed for either time_bins or samp_freq parameters needed to segment song.'')
      else if time_bins \<noteq> None \<and> samp_freq \<noteq> None then
        Inl (ValueError
          ''Can only use one of time_bins or samp_freq to segment song, but values were passed for both parameters'')
      else if (case time_bins of Some tb \<Rightarrow> length amp \<noteq> length tb | None \<Rightarrow> False) then
        Inl (ValueError ''if using time_bins, amp and time_bins must have same length'')
      else
        ebind (getitem segment_params ''threshold'') (\<lambda>threshold.
        ebind (np_convolve_h (map (\<lambda>a. a > threshold) amp)) (\<lambda>above_th_convoluted.
        ebind (find_crossings above_th_convoluted time_bins) (\<lambda>(onsets, offsets).
          if length onsets < 1 \<or> length offsets < 1 then Inr None
          else
            ebind (getitem segment_params ''min_silent_dur'') (\<lambda>min_silent_dur.
            case merge_short_gaps onsets offsets samp_freq min_silent_dur of
              (onsets1, offsets1) \<Rightarrow>
            ebind (getitem segment_params ''min_syl_dur'') (\<lambda>min_syl_dur.
            case drop_short_syls onsets1 offsets1 samp_freq min_syl_dur of
              (onsets2, offsets2) \<Rightarrow>
                Inr (Some (to_seconds samp_freq onsets2, to_seconds samp_freq offsets2))))))))"

section \<open>Spectrogram configuration: \<open>Spectrogram.__init__\<close>\<close>

text \<open>
  The arguments of \<open>Spectrogram.__init__\<close> are dynamically typed, and the constructor
  tests their types, so they are values of a small universe of Python objects.
\<close>

datatype pyval =
    PNone
  | PBool bool
  | PInt int
  | PFloat real
  | PStr string
  | PList "pyval list"
  | PTuple "pyval list"

text \<open>
  Functions of numpy, scipy, matplotlib and of the module \<open>evfuncs\<close> that the source calls
  and that are not part of \<open>audiofileIO.py\<close>. They are parameters of the model; each may
  raise. \<open>float_of_str\<close> is Python's \<open>float\<close> on a string (\<open>None\<close> when it raises);
  \<open>float_mul x y\<close> and \<open>float_div x y\<close> are the floats that \<open>x * y\<close> and \<open>x / y\<close>
  evaluate to on two floats, that is the exact product and quotient rounded to a float.
\<close>

record extlib =
  np_hanning :: "int \<Rightarrow> real list"
  slepian :: "int \<Rightarrow> real \<Rightarrow> error + real list"
  float_of_str :: "string \<Rightarrow> real option"
  float_mul :: "real \<Rightarrow> real \<Rightarrow> real"
  float_div :: "real \<Rightarrow> real \<Rightarrow> real"
  bandpass_filtfilt :: "real list \<Rightarrow> real \<Rightarrow> int list option \<Rightarrow> error + real list"
  butter :: "nat \<Rightarrow> real list \<Rightarrow> error + (real list \<times> real list)"
  lfilter :: "real list \<Rightarrow> real list \<Rightarrow> real list \<Rightarrow> error + real list"
  scipy_spectrogram ::
    "real list \<Rightarrow> real \<Rightarrow> real list option \<Rightarrow> int \<Rightarrow> int
       \<Rightarrow> error + (complex list list \<times> real list \<times> real list)"
  mlab_specgram ::
    "real list \<Rightarrow> real \<Rightarrow> real list option \<Rightarrow> int \<Rightarrow> int
       \<Rightarrow> error + (complex list list \<times> real list \<times> real list)"

text \<open>
  The attributes of a \<open>Spectrogram\<close> object. The constructor assigns \<open>self.thresh\<close> on one
  path only, so the attribute itself is optional: \<open>thresh = None\<close> is an object without
  the attribute, \<open>thresh = Some None\<close> one whose attribute holds Python's \<open>None\<close>. The
  attribute \<open>tresh\<close> is the one line 243 assigns.
\<close>

record Spectrogram =
  nperseg :: int
  noverlap :: int
  window :: "real list option"
  freqCutoffs :: "int list option"
  filterFunc :: "string option"
  spectFunc :: string
  logTransformSpect :: bool
  thresh :: "real option option"
  tresh :: "real option"
  remove_dc :: bool

text \<open>
  A call \<open>Spectrogram(**kwargs)\<close> binds keyword arguments to the parameters of lines 81 to
  90; a keyword that is no parameter raises \<open>TypeError\<close>, an absent one takes its default.
\<close>

definition init_params :: "string list" where
  "init_params = [''nperseg'', ''noverlap'', ''freq_cutoffs'', ''window'', ''filter_func'',
     ''spect_func'', ''log_transform_spect'', ''thresh'', ''remove_dc'']"

definition kwarg :: "(string \<times> pyval) list \<Rightarrow> string \<Rightarrow> pyval \<Rightarrow> pyval" where
  "kwarg kwargs name dflt = (case map_of kwargs name of Some v \<Rightarrow> v | None \<Rightarrow> dflt)"

text \<open>The numeric value of a Python number, as \<open>==\<close> between numbers compares it.\<close>

definition num_of :: "pyval \<Rightarrow> real option" where
  "num_of v = (case v of PInt i \<Rightarrow> Some (real_of_int i) | PFloat r \<Rightarrow> Some r
     | PBool b \<Rightarrow> Some (if b then 1 else 0) | _ \<Rightarrow> None)"

text \<open>\<open>float(v)\<close>; \<open>None\<close> when Python raises.\<close>

definition py_float :: "extlib \<Rightarrow> pyval \<Rightarrow> real option" where
  "py_float lib v = (case v of PStr s \<Rightarrow> float_of_str lib s | _ \<Rightarrow> num_of v)"

text \<open>Lines 174 to 188.\<close>

definition init_window :: "extlib \<Rightarrow> int \<Rightarrow> pyval \<Rightarrow> error + real list option" where
  "init_window lib nperseg_v window_v =
     (case window_v of
        PNone \<Rightarrow> Inr None
      | PStr w \<Rightarrow>
          if w \<noteq> ''Hann'' \<and> w \<noteq> ''dpss'' then
            Inl (ValueError ''{} is not a valid specification for window'')
          else if w = ''Hann'' then Inr (Some (np_hanning lib nperseg_v))
          else if nperseg_v = 0 then Inl ZeroDivisionError
          else ebind (slepian lib nperseg_v (4 / real_of_int nperseg_v)) (\<lambda>win. Inr (Some win))
      | _ \<Rightarrow> Inl (TypeError ''type of window must be str, but is {}''))"

text \<open>
  Lines 190 to 208. The default tuple \<open>(500, 10000)\<close> is turned into a list first; the
  comparison with it is Python's \<open>==\<close>, so a tuple of equal numbers of another numeric
  type is turned into a list as well.
\<close>

definition init_freq_cutoffs :: "pyval \<Rightarrow> error + int list option" where
  "init_freq_cutoffs freq_cutoffs =
     (case freq_cutoffs of
        PNone \<Rightarrow> Inr None
      | _ \<Rightarrow>
        (let fc = (case freq_cutoffs of
                     PTuple [a, b] \<Rightarrow>
                       if num_of a = Some 500 \<and> num_of b = Some 10000 then PList [a, b]
                       else freq_cutoffs
                   | _ \<Rightarrow> freq_cutoffs)
         in case fc of
              PList vals \<Rightarrow>
                if length vals \<noteq> 2 then
                  Inl (ValueError ''freq_cutoffs list should have length 2, but length is {}'')
                else if \<not> list_all (\<lambda>val. case val of PInt _ \<Rightarrow> True | _ \<Rightarrow> False) vals then
                  Inl (ValueError ''all values in freq_cutoffs list must be ints'')
                else Inr (Some (map (\<lambda>val. case val of PInt i \<Rightarrow> i | _ \<Rightarrow> 0) vals))
            | _ \<Rightarrow> Inl (TypeError ''type of freq_cutoffs must be list, but is {}'')))"

text \<open>
  Lines 210 to 221. The assignment of the default \<open>'butter_bandpass'\<close> at line 211 is
  always overwritten by line 221 (or followed by a raise), so the attribute ends up being
  the argument itself.
\<close>

definition init_filter_func :: "pyval \<Rightarrow> error + string option" where
  "init_filter_func filter_func =
     (case filter_func of
        PNone \<Rightarrow> Inr None
      | PStr f \<Rightarrow>
          if f \<noteq> ''diff'' \<and> f \<noteq> ''bandpass_filtfilt'' \<and> f \<noteq> ''butter_bandpass'' then
            Inl (ValueError
              ''string '{}' is not valid for filter_func. Valid values are: 'diff' or None.'')
          else Inr (Some f)
      | _ \<Rightarrow> Inl (TypeError ''type of filter_func must be str, but is {}''))"

text \<open>Lines 157 to 161 and 223 to 231.\<close>

definition init_spect_func :: "pyval \<Rightarrow> error + string" where
  "init_spect_func spect_func =
     (case (case spect_func of PNone \<Rightarrow> PStr ''scipy'' | _ \<Rightarrow> spect_func) of
        PStr f \<Rightarrow>
          if f \<noteq> ''scipy'' \<and> f \<noteq> ''mpl'' then
            Inl (ValueError
              ''string '{}' is not valid for filter_func. Valid values are: 'scipy' or 'mpl'.'')
          else Inr f
      | _ \<Rightarrow> Inl (TypeError ''type of spect_func must be str, but is {}''))"

text \<open>
  Lines 240 to 249. A threshold that is neither a float nor \<open>None\<close> is converted and stored
  as \<open>self.tresh\<close>; only a float or \<open>None\<close> is stored as \<open>self.thresh\<close>. The result is the
  pair of the attributes \<open>thresh\<close> and \<open>tresh\<close>.
\<close>

definition init_thresh :: "extlib \<Rightarrow> pyval \<Rightarrow> error + (real option option \<times> real option)" where
  "init_thresh lib thresh_v =
     (case thresh_v of
        PFloat t \<Rightarrow> Inr (Some (Some t), None)
      | PNone \<Rightarrow> Inr (Some None, None)
      | _ \<Rightarrow>
        (case py_float lib thresh_v of
           Some t \<Rightarrow> Inr (None, Some t)
         | None \<Rightarrow> Inl (ValueError ''Value for thresh is {}, but it must be float.'')))"

text \<open>The type tests of lines 162 to 172, 233 to 238 and 251 to 255.\<close>

definition init_int :: "string \<Rightarrow> pyval \<Rightarrow> error + int" where
  "init_int msg v = (case v of PInt i \<Rightarrow> Inr i | _ \<Rightarrow> Inl (TypeError msg))"

definition init_log_transform_spect :: "pyval \<Rightarrow> error + bool" where
  "init_log_transform_spect v =
     (case v of PBool b \<Rightarrow> Inr b
      | _ \<Rightarrow> Inl (ValueError ''Value for log_transform_spect is {}, but it must be bool.''))"

definition init_remove_dc :: "pyval \<Rightarrow> error + bool" where
  "init_remove_dc v =
     (case v of PBool b \<Rightarrow> Inr b
      | _ \<Rightarrow> Inl (TypeError ''Value for remove_dc should be boolean, not {}''))"

text \<open>\<open>Spectrogram.__init__\<close>, lines 81 to 255, called with keyword arguments.\<close>

definition Spectrogram_init :: "extlib \<Rightarrow> (string \<times> pyval) list \<Rightarrow> error + Spectrogram" where
  "Spectrogram_init lib kwargs =
     (if \<not> list_all (\<lambda>k. k \<in> set init_params) (map fst kwargs) then
        Inl (TypeError ''__init__() got an unexpected keyword argument'')
      else if kwarg kwargs ''nperseg'' PNone = PNone then
        Inl (ValueError ''nperseg requires a value for Spectrogram.__init__'')
      else if kwarg kwargs ''noverlap'' PNone = PNone then
        Inl (ValueError ''noverlap requires a value for Spectrogram.__init__'')
      else
        ebind (init_int ''type of nperseg must be int, but is {}''
                 (kwarg kwargs ''nperseg'' PNone)) (\<lambda>nperseg_v.
        ebind (init_int ''type of noverlap must be int, but is {}''
                 (kwarg kwargs ''noverlap'' PNone)) (\<lambda>noverlap_v.
        ebind (init_window lib nperseg_v (kwarg kwargs ''window'' PNone)) (\<lambda>window_v.
        ebind (init_freq_cutoffs
                 (kwarg kwargs ''freq_cutoffs'' (PTuple [PInt 500, PInt 10000])))
          (\<lambda>freqCutoffs_v.
        ebind (init_filter_func (kwarg kwargs ''filter_func'' PNone)) (\<lambda>filterFunc_v.
        ebind (init_spect_func (kwarg kwargs ''spect_func'' PNone)) (\<lambda>spectFunc_v.
        ebind (init_log_transform_spect (kwarg kwargs ''log_transform_spect'' (PBool True)))
          (\<lambda>logTransformSpect_v.
        ebind (init_thresh lib (kwarg kwargs ''thresh'' (PFloat (- 4)))) (\<lambda>(thresh_v, tresh_v).
        ebind (init_remove_dc (kwarg kwargs ''remove_dc'' (PBool True))) (\<lambda>remove_dc_v.
          Inr \<lparr>nperseg = nperseg_v, noverlap = noverlap_v, window = window_v,
               freqCutoffs = freqCutoffs_v, filterFunc = filterFunc_v,
               spectFunc = spectFunc_v, logTransformSpect = logTransformSpect_v,
               thresh = thresh_v, tresh = tresh_v, remove_dc = remove_dc_v\<rparr>))))))))))"

section \<open>Filters and \<open>Spectrogram.make\<close>\<close>

text \<open>\<open>butter_bandpass\<close> and \<open>butter_bandpass_filter\<close>, lines 22 to 72.\<close>

definition butter_bandpass ::
  "extlib \<Rightarrow> int list option \<Rightarrow> real \<Rightarrow> nat \<Rightarrow> error + (real list \<times> real list)" where
  "butter_bandpass lib freq_cutoffs samp_freq order =
     (let nyquist = 0.5 * samp_freq
      in case freq_cutoffs of
           None \<Rightarrow> Inl (TypeError ''unsupported operand type(s) for /: NoneType and float'')
         | Some fc \<Rightarrow> butter lib order (map (\<lambda>f. real_of_int f / nyquist) fc))"

definition butter_bandpass_filter ::
  "extlib \<Rightarrow> real list \<Rightarrow> real \<Rightarrow> int list option \<Rightarrow> nat \<Rightarrow> error + real list" where
  "butter_bandpass_filter lib data samp_freq freq_cutoffs order =
     ebind (butter_bandpass lib freq_cutoffs samp_freq order) (\<lambda>(b, a). lfilter lib b a data)"

text \<open>\<open>np.diff\<close>: the first discrete difference, one shorter than its argument.\<close>

definition np_diff :: "real list \<Rightarrow> real list" where
  "np_diff xs = map2 (\<lambda>x1 x0. x1 - x0) (tl xs) xs"

text \<open>
  The entries of a finished spectrogram: \<open>np.log10\<close> sends \<open>0\<close> to minus infinity, which
  the clamp of line 349 then raises to the threshold.
\<close>

datatype np_float = NegInf | Finite real

definition np_log10 :: "real \<Rightarrow> np_float" where
  "np_log10 x = (if x = 0 then NegInf else Finite (log 10 x))"

definition clamp_below :: "real \<Rightarrow> np_float \<Rightarrow> np_float" where
  "clamp_below t v = (case v of NegInf \<Rightarrow> Finite t | Finite x \<Rightarrow> if x < t then Finite t else v)"

type_synonym spectrogram = "np_float list list \<times> real list \<times> real list"

text \<open>Lines 276 to 285: the filter applied to the raw audio.\<close>

definition make_filter :: "extlib \<Rightarrow> Spectrogram \<Rightarrow> real list \<Rightarrow> real \<Rightarrow> error + real list" where
  "make_filter lib self raw_audio samp_freq =
     (if filterFunc self = Some ''diff'' then Inr (np_diff raw_audio)
      else if filterFunc self = Some ''bandpass_filtfilt'' then
        bandpass_filtfilt lib raw_audio samp_freq (freqCutoffs self)
      else if filterFunc self = Some ''butter_bandpass'' then
        butter_bandpass_filter lib raw_audio samp_freq (freqCutoffs self) 8
      else Inr raw_audio)"

text \<open>
  Lines 287 to 334: the transform of the selected backend. A \<open>ValueError\<close> of the backend
  whose message is \<open>window is longer than input signal\<close> is turned into \<open>WindowError\<close>;
  every other exception passes through.
\<close>

definition make_transform ::
  "extlib \<Rightarrow> Spectrogram \<Rightarrow> real list \<Rightarrow> real
     \<Rightarrow> error + (complex list list \<times> real list \<times> real list)" where
  "make_transform lib self raw_audio samp_freq =
     (case (if spectFunc self = ''scipy'' then
              scipy_spectrogram lib raw_audio samp_freq (window self) (nperseg self) (noverlap self)
            else if spectFunc self = ''mpl'' then
              mlab_specgram lib raw_audio samp_freq (window self) (nperseg self) (noverlap self)
            else Inl (UnboundLocalError ''local variable referenced before assignment'')) of
        Inl (ValueError msg) \<Rightarrow>
          if msg = ''window is longer than input signal'' then Inl WindowError
          else Inl (ValueError msg)
      | r \<Rightarrow> r)"

text \<open>Lines 353 to 357: the rows whose frequency lies in the closed band are kept.\<close>

definition crop_band ::
  "int list option \<Rightarrow> np_float list list \<Rightarrow> real list
     \<Rightarrow> error + (np_float list list \<times> real list)" where
  "crop_band cutoffs spect freq_bins =
     (case cutoffs of
        None \<Rightarrow> Inr (spect, freq_bins)
      | Some (lo # hi # _) \<Rightarrow>
          (let f_inds = np_nonzero
                 (map (\<lambda>f. real_of_int lo \<le> f \<and> f \<le> real_of_int hi) freq_bins)
           in ebind (np_take freq_bins f_inds) (\<lambda>freq_bins1.
              ebind (np_take spect f_inds) (\<lambda>spect1. Inr (spect1, freq_bins1))))
      | Some _ \<Rightarrow> Inl (IndexError ''list index out of range''))"

text \<open>
  \<open>Spectrogram.make(raw_audio, samp_freq)\<close>, lines 257 to 359. Reading \<open>self.thresh\<close> at
  line 348 raises \<open>AttributeError\<close> on an object that has no such attribute.
\<close>

definition Spectrogram_make ::
  "extlib \<Rightarrow> Spectrogram \<Rightarrow> real list \<Rightarrow> real \<Rightarrow> error + spectrogram" where
  "Spectrogram_make lib self raw_audio samp_freq =
     ebind (make_filter lib self raw_audio samp_freq) (\<lambda>filtered.
     ebind (make_transform lib self filtered samp_freq) (\<lambda>(spect0, freq_bins0, time_bins).
       let freq_bins1 = (if remove_dc self then tl freq_bins0 else freq_bins0);
           spect1 = (if remove_dc self then tl spect0 else spect0);
           spect2 = map (map cmod) spect1;
           spect3 = (if logTransformSpect self then map (map np_log10) spect2
                     else map (map Finite) spect2)
       in case thresh self of
            None \<Rightarrow> Inl (AttributeError ''Spectrogram object has no attribute thresh'')
          | Some thresh_v \<Rightarrow>
              ebind (crop_band (freqCutoffs self)
                       (case thresh_v of None \<Rightarrow> spect3
                        | Some t \<Rightarrow> map (map (clamp_below t)) spect3)
                       freq_bins1)
                (\<lambda>(spect4, freq_bins2). Inr (spect4, freq_bins2, time_bins))))"

text \<open>
  An instance of the external library for evaluating examples. Its float product and
  quotient are the exact ones; the examples below use values on which the exact and the
  rounded results decide every comparison and truncation alike. Its windows are constant,
  its filters are the identity, and both backends refuse a signal shorter than the
  segment length and otherwise return a fixed matrix with three frequency bins and two
  time bins.
\<close>

definition example_transform ::
  "real list \<Rightarrow> real \<Rightarrow> real list option \<Rightarrow> int \<Rightarrow> int
     \<Rightarrow> error + (complex list list \<times> real list \<times> real list)" where
  "example_transform raw_audio samp_freq win nperseg_v noverlap_v =
     (if int (length raw_audio) < nperseg_v then
        Inl (ValueError ''window is longer than input signal'')
      else Inr ([[1, 1], [0, 2], [3, 0]], [0, 4000, 8000], [0, 1]))"

definition example_lib :: extlib where
  "example_lib =
     \<lparr>np_hanning = (\<lambda>n. replicate (nat n) 1),
      slepian = (\<lambda>n width. Inr (replicate (nat n) 1)),
      float_of_str = (\<lambda>s. None),
      float_mul = (\<lambda>x y. x * y),
      float_div = (\<lambda>x y. x / y),
      bandpass_filtfilt = (\<lambda>data samp_freq cutoffs. Inr data),
      butter = (\<lambda>order wn. Inr ([1], [1])),
      lfilter = (\<lambda>b a data. Inr data),
      scipy_spectrogram = example_transform,
      mlab_specgram = example_transform\<rparr>"

section \<open>The \<open>Song\<close> aggregate\<close>

text \<open>\<open>np.nan\<close> stored in place of an array.\<close>

datatype 'a or_nan = NaN | Val 'a

text \<open>The class \<open>syllable\<close>, lines 471 to 516.\<close>

record syllable =
  sylAudio :: "real list"
  syl_sampFreq :: real
  spect :: "np_float list list or_nan"
  nfft :: int
  overlap :: int
  syl_freqCutoffs :: "int list option"
  freqBins :: "real list or_nan"
  timeBins :: "real list or_nan"
  index :: nat
  label :: string

text \<open>
  The attributes of a \<open>Song\<close>. The attributes \<open>spectParams\<close>, \<open>segmentParams\<close>,
  \<open>syls_to_use\<close> and \<open>syls\<close> are assigned by some paths only; \<open>None\<close> is an object without
  the attribute. A label is a string; a Python string of labels is the list of its
  one-character strings.
\<close>

record Song =
  filename :: string
  fileFormat :: string
  rawAudio :: "real list"
  sampFreq :: real
  onsets_s :: "real list"
  offsets_s :: "real list"
  onsets_Hz :: "int list"
  offsets_Hz :: "int list"
  labels :: "string list"
  spectParams :: "(string \<times> pyval) list option"
  segmentParams :: "(string \<rightharpoonup> real) option"
  syls_to_use :: "bool list option"
  syls :: "syllable list option"

text \<open>
  What the annotation readers return: the dictionary of \<open>evfuncs.load_notmat\<close>, of which
  the source reads six keys (times in milliseconds), and the dictionary of the modules
  \<open>koumura\<close>, \<open>wav_txt\<close> and \<open>txt\<close>, of which it reads three (times in samples).
\<close>

record notmat =
  nm_onsets :: "real list"
  nm_offsets :: "real list"
  nm_labels :: "string list"
  nm_threshold :: real
  nm_min_dur :: real
  nm_min_int :: real

record annot =
  an_onsets :: "int list"
  an_offsets :: "int list"
  an_labels :: "string list"

text \<open>
  The file readers and the other collaborators of \<open>Song\<close> that are not part of
  \<open>audiofileIO.py\<close>; \<open>evsonganaly_freq_cutoffs\<close> is the entry
  \<open>refs_dict['evsonganaly']['freq_cutoffs']\<close> of the table of reference parameters, and
  \<open>np_stack\<close> is \<open>np.stack(..., axis=0)\<close>.
\<close>

record collab =
  load_cbin :: "string \<Rightarrow> error + (real list \<times> real)"
  wavfile_read :: "string \<Rightarrow> error + (real \<times> real list)"
  readlines :: "string \<Rightarrow> error + string list"
  np_load :: "string \<Rightarrow> error + real list list"
  load_notmat :: "string \<Rightarrow> error + notmat"
  koumura_load_song_annot :: "string \<Rightarrow> error + annot"
  wav_txt_load_song_annot :: "string \<Rightarrow> error + annot"
  txt_load_song_annot :: "string \<Rightarrow> error + annot"
  evsonganaly_freq_cutoffs :: pyval
  smooth_data :: "real list \<Rightarrow> real \<Rightarrow> pyval \<Rightarrow> error + real list"
  np_stack :: "np_float list list or_nan list \<Rightarrow> error + np_float list list list"

text \<open>
  Rounding of a float to the nearest integer with ties going to the even one, which is what
  Python's \<open>round\<close> and \<open>np.round\<close> do.
\<close>

definition round_half_even :: "real \<Rightarrow> int" where
  "round_half_even x =
     (let f = \<lfloor>x\<rfloor>; d = x - real_of_int f
      in if d < 1 / 2 then f else if 1 / 2 < d then f + 1 else if even f then f else f + 1)"

text \<open>\<open>int(x)\<close> on a float: truncation towards zero.\<close>

definition int_trunc :: "real \<Rightarrow> int" where
  "int_trunc x = (if 0 \<le> x then \<lfloor>x\<rfloor> else \<lceil>x\<rceil>)"

text \<open>\<open>read_song_txt\<close> and \<open>read_song_npy\<close>, lines 934 to 966.\<close>

fun float_lines :: "extlib \<Rightarrow> string list \<Rightarrow> error + real list" where
  "float_lines lib [] = Inr []"
| "float_lines lib (line # lines) =
     (case float_of_str lib line of
        None \<Rightarrow> Inl (ValueError ''could not convert string to float'')
      | Some x \<Rightarrow> ebind (float_lines lib lines) (\<lambda>xs. Inr (x # xs)))"

definition read_song_txt :: "extlib \<Rightarrow> collab \<Rightarrow> string \<Rightarrow> error + (real \<times> real list)" where
  "read_song_txt lib io fname =
     ebind (readlines io fname) (\<lambda>lines.
     ebind (float_lines lib lines) (\<lambda>raw_audio. Inr (30303, raw_audio)))"

definition read_song_npy :: "collab \<Rightarrow> string \<Rightarrow> error + (real \<times> real list)" where
  "read_song_npy io fname =
     ebind (np_load io fname) (\<lambda>arr.
       case transpose arr of
         [] \<Rightarrow> Inl (IndexError ''index 0 is out of bounds for axis 0 with size 0'')
       | row # _ \<Rightarrow> Inr (30303, row))"

text \<open>Lines 596 to 609: the raw audio and the sampling frequency, by file format.\<close>

definition load_audio ::
  "extlib \<Rightarrow> collab \<Rightarrow> string \<Rightarrow> string \<Rightarrow> error + (real list \<times> real)" where
  "load_audio lib io fname file_format =
     (if file_format = ''evtaf'' then load_cbin io fname
      else if file_format = ''koumura'' \<or> file_format = ''wav_txt'' then
        ebind (wavfile_read io fname) (\<lambda>(samp_freq, raw_audio). Inr (raw_audio, samp_freq))
      else if file_format = ''txt'' then
        ebind (read_song_txt lib io fname) (\<lambda>(samp_freq, raw_audio). Inr (raw_audio, samp_freq))
      else if file_format = ''npy'' then
        ebind (read_song_npy io fname) (\<lambda>(samp_freq, raw_audio). Inr (raw_audio, samp_freq))
      else Inl (UnboundLocalError ''local variable 'raw_audio' referenced before assignment''))"

text \<open>
  Lines 624 to 635: the comparison of the supplied segmentation parameters with those
  recorded in the \<open>.not.mat\<close> annotation, whose durations are in milliseconds; the
  supplied durations are compared with the float quotients by \<open>1000\<close>. Line 613
  builds a \<open>ValueError\<close> without raising it, so without \<open>segment_params\<close> the first
  subscript raises \<open>TypeError\<close>.
\<close>

definition check_segment_params ::
  "extlib \<Rightarrow> (string \<rightharpoonup> real) option \<Rightarrow> notmat \<Rightarrow> error + unit" where
  "check_segment_params lib segment_params song_dict =
     (case segment_params of
        None \<Rightarrow> Inl (TypeError ''NoneType object is not subscriptable'')
      | Some sp \<Rightarrow>
          ebind (getitem sp ''threshold'') (\<lambda>threshold.
            if threshold \<noteq> nm_threshold song_dict then
              Inl (SegmentParametersMismatchError
                ''threshold parameter for {} does not match parameter value for segment_params[threshold].'')
            else
              ebind (getitem sp ''min_syl_dur'') (\<lambda>min_syl_dur.
                if min_syl_dur \<noteq> float_div lib (nm_min_dur song_dict) 1000 then
                  Inl (SegmentParametersMismatchError
                    ''min_dur parameter for {} does not match parameter value for segment_params[min_syl_dur].'')
                else
                  ebind (getitem sp ''min_silent_dur'') (\<lambda>min_silent_dur.
                    if min_silent_dur \<noteq> float_div lib (nm_min_int song_dict) 1000 then
                      Inl (SegmentParametersMismatchError
                        ''min_int parameter for {} does not match parameter value for segment_params[min_silent_dur].'')
                    else Inr ()))))"

text \<open>The annotation file: \<open>annote_filename\<close> when it is given and not empty.\<close>

definition annot_path :: "string option \<Rightarrow> string \<Rightarrow> string" where
  "annot_path annote_filename fname =
     (case annote_filename of None \<Rightarrow> fname | Some a \<Rightarrow> if a = [] then fname else a)"

text \<open>
  Lines 611 to 702: the annotation path. The result holds \<open>onsets_s\<close>, \<open>offsets_s\<close>,
  \<open>onsets_Hz\<close>, \<open>offsets_Hz\<close> and \<open>labels\<close>.
\<close>

definition load_annotation ::
  "extlib \<Rightarrow> collab \<Rightarrow> string \<Rightarrow> string \<Rightarrow> (string \<rightharpoonup> real) option \<Rightarrow> string option
     \<Rightarrow> real \<Rightarrow> error + (real list \<times> real list \<times> int list \<times> int list \<times> string list)" where
  "load_annotation lib io fname file_format segment_params annote_filename samp_freq =
     (if file_format = ''evtaf'' then
        ebind (load_notmat io (annot_path annote_filename fname)) (\<lambda>song_dict.
        ebind (check_segment_params lib segment_params song_dict) (\<lambda>_.
          let on_s = map (\<lambda>t. float_div lib t 1000) (nm_onsets song_dict);
              off_s = map (\<lambda>t. float_div lib t 1000) (nm_offsets song_dict)
          in Inr (on_s, off_s,
                  map (\<lambda>t. round_half_even (float_mul lib t samp_freq) - 1) on_s,
                  map (\<lambda>t. round_half_even (float_mul lib t samp_freq)) off_s,
                  nm_labels song_dict)))
      else
        ebind (if file_format = ''koumura'' then
                 koumura_load_song_annot io (annot_path annote_filename fname)
               else if file_format = ''wav_txt'' then
                 wav_txt_load_song_annot io (annot_path annote_filename fname)
               else if file_format = ''txt'' \<or> file_format = ''npy'' then
                 txt_load_song_annot io (annot_path annote_filename fname)
               else Inl (UnboundLocalError
                      ''local variable 'song_dict' referenced before assignment''))
          (\<lambda>song_dict.
             Inr (map (\<lambda>k. float_div lib (real_of_int k) samp_freq) (an_onsets song_dict),
                  map (\<lambda>k. float_div lib (real_of_int k) samp_freq) (an_offsets song_dict),
                  an_onsets song_dict, an_offsets song_dict, an_labels song_dict)))"

text \<open>
  Lines 704 to 733: fresh segmentation. A silent recording makes \<open>segment_song\<close> return
  \<open>None, None\<close>, and the product \<open>self.onsets_s * self.sampFreq\<close> then raises \<open>TypeError\<close>.
\<close>

definition segment_fresh ::
  "extlib \<Rightarrow> collab \<Rightarrow> string \<Rightarrow> real list \<Rightarrow> real \<Rightarrow> (string \<rightharpoonup> real)
     \<Rightarrow> (string \<times> pyval) list
     \<Rightarrow> error + (real list \<times> real list \<times> int list \<times> int list \<times> string list)" where
  "segment_fresh lib io file_format raw_audio samp_freq segment_params spect_params =
     ebind (if file_format = ''evtaf'' then Inr (evsonganaly_freq_cutoffs io)
            else case map_of spect_params ''freq_cutoffs'' of
                   None \<Rightarrow> Inl (KeyError ''freq_cutoffs'') | Some v \<Rightarrow> Inr v) (\<lambda>cutoffs.
     ebind (smooth_data io raw_audio samp_freq cutoffs) (\<lambda>amp.
     ebind (segment_song amp segment_params None (Some samp_freq)) (\<lambda>segs.
       case segs of
         None \<Rightarrow> Inl (TypeError ''unsupported operand type(s) for *: NoneType and float'')
       | Some (onsets, offsets) \<Rightarrow>
           Inr (onsets, offsets,
                map (\<lambda>t. round_half_even (float_mul lib t samp_freq)) onsets,
                map (\<lambda>t. round_half_even (float_mul lib t samp_freq)) offsets,
                replicate (length onsets) ''-''))))"

text \<open>
  \<open>Song.__init__\<close>, lines 527 to 733. The two checks of lines 583 to 591 come first; they
  guarantee that the fresh-segmentation path has both dictionaries.
\<close>

definition new_song ::
  "string \<Rightarrow> string \<Rightarrow> real list \<Rightarrow> real
     \<Rightarrow> (string \<times> pyval) list option \<Rightarrow> (string \<rightharpoonup> real) option
     \<Rightarrow> real list \<times> real list \<times> int list \<times> int list \<times> string list \<Rightarrow> Song" where
  "new_song fname file_format raw_audio samp_freq spect_params segment_params bounds =
     (case bounds of (on_s, off_s, on_Hz, off_Hz, labs) \<Rightarrow>
        \<lparr>filename = fname, fileFormat = file_format, rawAudio = raw_audio,
         sampFreq = samp_freq, onsets_s = on_s, offsets_s = off_s,
         onsets_Hz = on_Hz, offsets_Hz = off_Hz, labels = labs,
         spectParams = spect_params, segmentParams = segment_params,
         syls_to_use = None, syls = None\<rparr>)"

definition Song_init ::
  "extlib \<Rightarrow> collab \<Rightarrow> string \<Rightarrow> string \<Rightarrow> (string \<rightharpoonup> real) option \<Rightarrow> bool
     \<Rightarrow> string option \<Rightarrow> (string \<times> pyval) list option \<Rightarrow> error + Song" where
  "Song_init lib io fname file_format segment_params use_annotation annote_filename spect_params =
     (if use_annotation then
        ebind (load_audio lib io fname file_format) (\<lambda>(raw_audio, samp_freq).
        ebind (load_annotation lib io fname file_format segment_params annote_filename
                 samp_freq)
          (\<lambda>bounds. Inr (new_song fname file_format raw_audio samp_freq None None bounds)))
      else
        case segment_params of
          None \<Rightarrow> Inl (ValueError
            ''use_annotation set to False but no segment_params was provided; segment_params are required to find segments.'')
        | Some sp \<Rightarrow>
           (case spect_params of
              None \<Rightarrow> Inl (ValueError
                ''use_annotation set to False but no spect_params was provided; spect_params are required to find segments.'')
            | Some spp \<Rightarrow>
                ebind (load_audio lib io fname file_format) (\<lambda>(raw_audio, samp_freq).
                ebind (segment_fresh lib io file_format raw_audio samp_freq sp spp)
                  (\<lambda>bounds. Inr (new_song fname file_format raw_audio samp_freq
                                  spect_params segment_params bounds)))))"

text \<open>
  \<open>Song.set_syls_to_use\<close>, lines 775 to 802. The argument is the string \<open>'all'\<close>, another
  string (the list of its characters), a list of labels, or something else.
\<close>

datatype labels_arg = LStr string | LList "string list" | LOther

definition set_syls_to_use :: "Song \<Rightarrow> labels_arg \<Rightarrow> error + Song" where
  "set_syls_to_use self labels_to_use =
     (case labels_to_use of
        LOther \<Rightarrow> Inl (ValueError ''labels_to_use argument should be a list or string'')
      | LStr s \<Rightarrow>
          if s = ''all'' then
            Inr (self\<lparr>syls_to_use := Some (replicate (length (onsets_s self)) True)\<rparr>)
          else
            Inr (self\<lparr>syls_to_use :=
                   Some (map (\<lambda>l. l \<in> set (map (\<lambda>c. [c]) s)) (labels self))\<rparr>)
      | LList ls \<Rightarrow>
          Inr (self\<lparr>syls_to_use := Some (map (\<lambda>l. l \<in> set ls) (labels self))\<rparr>))"

section \<open>Materialising syllables: \<open>Song.make_syl_spects\<close>\<close>

text \<open>
  A slice \<open>xs[start:stop]\<close> as Python takes it: a negative bound counts from the end, and
  bounds are clipped to the array. \<open>stop = None\<close> is the slice \<open>xs[start:]\<close>.
\<close>

definition py_slice :: "'a list \<Rightarrow> int \<Rightarrow> int option \<Rightarrow> 'a list" where
  "py_slice xs start stop =
     (let n = int (length xs);
          clip = (\<lambda>i. if i < 0 then max (i + n) 0 else min i n);
          lo = clip start;
          hi = (case stop of None \<Rightarrow> n | Some j \<Rightarrow> clip j)
      in take (nat (hi - lo)) (drop (nat lo) xs))"

text \<open>Line 889: \<open>int(round(width_diff / 2))\<close>.\<close>

definition left_width :: "int \<Rightarrow> int" where
  "left_width width_diff = round_half_even (real_of_int width_diff / 2)"

text \<open>
  Lines 883 to 900: the audio of one selected segment. \<open>width\<close> is \<open>syl_spect_width_Hz\<close>
  when that local variable exists.
\<close>

definition syl_audio :: "real list \<Rightarrow> int option \<Rightarrow> int \<Rightarrow> int \<Rightarrow> real list" where
  "syl_audio raw_audio width onset offset =
     (case width of
        Some syl_spect_width_Hz \<Rightarrow>
          (let syl_duration_in_samples = offset - onset;
               width_diff = syl_spect_width_Hz - syl_duration_in_samples;
               left = left_width width_diff;
               right_width = width_diff - left
           in if left > onset then py_slice raw_audio 0 (Some syl_spect_width_Hz)
              else if offset + right_width > int (length raw_audio) then
                py_slice raw_audio (- syl_spect_width_Hz) None
              else py_slice raw_audio (onset - left) (Some (offset + right_width)))
      | None \<Rightarrow> py_slice raw_audio onset (Some offset))"

text \<open>
  Lines 902 to 924: the spectrogram of one segment and its \<open>syllable\<close> object. Only
  \<open>WindowError\<close> is caught; it leaves \<open>np.nan\<close> in the three fields.
\<close>

definition make_syl ::
  "extlib \<Rightarrow> Song \<Rightarrow> Spectrogram \<Rightarrow> real list \<Rightarrow> nat \<Rightarrow> string \<Rightarrow> error + syllable" where
  "make_syl lib self spect_maker audio ind lab =
     ebind (case Spectrogram_make lib spect_maker audio (sampFreq self) of
              Inr (sp, freq_bins, time_bins) \<Rightarrow> Inr (Val sp, Val freq_bins, Val time_bins)
            | Inl WindowError \<Rightarrow> Inr (NaN, NaN, NaN)
            | Inl e \<Rightarrow> Inl e)
       (\<lambda>(sp, freq_bins, time_bins).
          Inr \<lparr>sylAudio = audio, syl_sampFreq = sampFreq self, spect = sp,
               nfft = nperseg spect_maker, overlap = noverlap spect_maker,
               syl_freqCutoffs = freqCutoffs spect_maker,
               freqBins = freq_bins, timeBins = time_bins, index = ind, label = lab\<rparr>)"

text \<open>
  Lines 873 to 926: the loop over \<open>enumerate(zip(labels, onsets_Hz, offsets_Hz))\<close>. The
  duration test comes before the test of the selection mask.
\<close>

fun make_syls ::
  "extlib \<Rightarrow> Song \<Rightarrow> Spectrogram \<Rightarrow> int option \<Rightarrow> bool list
     \<Rightarrow> (nat \<times> string \<times> int \<times> int) list \<Rightarrow> error + syllable list" where
  "make_syls lib self spect_maker width use [] = Inr []"
| "make_syls lib self spect_maker width use ((ind, lab, onset, offset) # rest) =
     (if (case width of Some w \<Rightarrow> offset - onset > w | None \<Rightarrow> False) then
        Inl (ValueError
          ''syllable duration of syllable {} with label {} in file {} is greater than width specified for all syllable spectrograms.'')
      else if \<not> ind < length use then
        Inl (IndexError ''index is out of bounds'')
      else if use ! ind then
        ebind (make_syl lib self spect_maker
                 (syl_audio (rawAudio self) width onset offset) ind lab) (\<lambda>curr_syl.
        ebind (make_syls lib self spect_maker width use rest) (\<lambda>all_syls.
          Inr (curr_syl # all_syls)))
      else make_syls lib self spect_maker width use rest)"

text \<open>
  Lines 855 to 867: the fixed width in samples, when \<open>syl_spect_width\<close> is positive. Line
  863 truncates the float product of the width and the sampling frequency.
\<close>

definition syl_spect_width_Hz :: "extlib \<Rightarrow> Song \<Rightarrow> real \<Rightarrow> error + int option" where
  "syl_spect_width_Hz lib self syl_spect_width =
     (if syl_spect_width > 0 then
        (let w = int_trunc (float_mul lib syl_spect_width (sampFreq self))
         in if w > int (length (rawAudio self)) then
              Inl (ValueError ''syl_spect_width, converted to samples, is longer than song file {}.'')
            else Inr (Some w))
      else Inr None)"

text \<open>
  \<open>Song.make_syl_spects\<close>, lines 804 to 932. The result is the object after the call and
  either the exception raised or the value returned. The test of line 847 is always false,
  since every \<open>Song\<close> has the attribute \<open>sampFreq\<close>.
\<close>

definition make_syl_spects ::
  "extlib \<Rightarrow> collab \<Rightarrow> Song \<Rightarrow> (string \<times> pyval) list \<Rightarrow> real \<Rightarrow> bool \<Rightarrow> bool
     \<Rightarrow> Song \<times> (error + np_float list list list option)" where
  "make_syl_spects lib io self spect_params syl_spect_width set_syl_spects return_spects =
     (case syls_to_use self of
        None \<Rightarrow> (self, Inl (ValueError
          ''Must set syls_to_use by calling set_syls_to_use method before calling get_syls.''))
      | Some use \<Rightarrow>
         (case ebind (syl_spect_width_Hz lib self syl_spect_width) (\<lambda>width.
               ebind (Spectrogram_init lib spect_params) (\<lambda>spect_maker.
                 make_syls lib self spect_maker width use
                   (enumerate 0 (zip (labels self) (zip (onsets_Hz self) (offsets_Hz self)))))) of
            Inl e \<Rightarrow> (self, Inl e)
          | Inr all_syls \<Rightarrow>
              (let self1 = (if set_syl_spects then self\<lparr>syls := Some all_syls\<rparr> else self)
               in if return_spects then
                    (self1, ebind (np_stack io (map spect all_syls)) (\<lambda>st. Inr (Some st)))
                  else (self1, Inr None))))"

text \<open>
  Instances of the collaborators and of a song for evaluating examples: a recording of
  twelve samples at a sampling frequency of \<open>1\<close>, annotated in milliseconds with the two
  segments \<open>[4, 6)\<close> and \<open>[8, 11)\<close>, labelled \<open>a\<close> and \<open>b\<close>, and with threshold \<open>1500\<close>,
  minimum duration \<open>10\<close> ms and minimum gap \<open>6\<close> ms recorded.
\<close>

definition example_notmat :: notmat where
  "example_notmat =
     \<lparr>nm_onsets = [5000, 9000], nm_offsets = [6000, 11000], nm_labels = [''a'', ''b''],
      nm_threshold = 1500, nm_min_dur = 10, nm_min_int = 6\<rparr>"

definition example_annot :: annot where
  "example_annot = \<lparr>an_onsets = [4, 8], an_offsets = [6, 11], an_labels = [''a'', ''b'']\<rparr>"

definition example_io :: collab where
  "example_io =
     \<lparr>load_cbin = (\<lambda>f. Inr ([0, 1, 2, 3, 4, 5, 6, 7, 8, 9, 10, 11], 1)),
      wavfile_read = (\<lambda>f. Inr (1, [0, 1, 2, 3, 4, 5, 6, 7, 8, 9, 10, 11])),
      readlines = (\<lambda>f. Inr []),
      np_load = (\<lambda>f. Inr []),
      load_notmat = (\<lambda>f. Inr example_notmat),
      koumura_load_song_annot = (\<lambda>f. Inr example_annot),
      wav_txt_load_song_annot = (\<lambda>f. Inr example_annot),
      txt_load_song_annot = (\<lambda>f. Inr example_annot),
      evsonganaly_freq_cutoffs = PList [PInt 500, PInt 10000],
      smooth_data = (\<lambda>raw_audio samp_freq cutoffs. Inr raw_audio),
      np_stack = (\<lambda>arrays. Inl (ValueError ''all input arrays must have the same shape''))\<rparr>"

definition example_song :: Song where
  "example_song =
     \<lparr>filename = ''song.cbin'', fileFormat = ''evtaf'',
      rawAudio = [0, 1, 2, 3, 4, 5, 6, 7, 8, 9, 10, 11], sampFreq = 1,
      onsets_s = [5, 9], offsets_s = [6, 11], onsets_Hz = [4, 8], offsets_Hz = [6, 11],
      labels = [''a'', ''b''], spectParams = None, segmentParams = None,
      syls_to_use = None, syls = None\<rparr>"

section \<open>Properties of the segmenter\<close>

lemma np_nonzero_all_False: "list_all (\<lambda>b. \<not> b) flags \<Longrightarrow> np_nonzero flags = []"
  by (simp add: np_nonzero_def filter_empty_conv list_all_length)

lemma length_np_nonzero: "length (np_nonzero flags) = length (filter (\<lambda>b. b) flags)"
proof -
  have "length (filter (\<lambda>b. b) (map (\<lambda>i. flags ! i) [0..<length flags]))
        = length (filter (\<lambda>i. flags ! i) [0..<length flags])"
    by (simp add: length_filter_map comp_def)
  then show ?thesis by (simp add: np_nonzero_def map_nth)
qed

lemma sum_list_diffs:
  "sum_list (map2 (\<lambda>x y. x - y) (a @ [0]) (p # a)) = - (p::int)"
  by (induction a arbitrary: p) simp_all

lemma signs_count:
  "list_all (\<lambda>c. c = -1 \<or> c = 0 \<or> c = (1::int)) cs \<Longrightarrow>
   int (length (filter (\<lambda>c. c > 0) cs)) - int (length (filter (\<lambda>c. c < 0) cs)) = sum_list cs"
  by (induction cs) auto

lemma diffs_range:
  "list_all (\<lambda>x. x = 0 \<or> x = (1::int)) (p # a) \<Longrightarrow>
   list_all (\<lambda>c. c = -1 \<or> c = 0 \<or> c = 1) (map2 (\<lambda>x y. x - y) (a @ [0]) (p # a))"
  by (induction a arbitrary: p) auto

lemma np_convolve_h_balanced:
  assumes "np_convolve_h above_th = Inr cs"
  shows "length (np_nonzero (map (\<lambda>c. c > 0) cs)) = length (np_nonzero (map (\<lambda>c. c < 0) cs))"
proof -
  define a where "a = map (\<lambda>b. if b then (1::int) else 0) above_th"
  have cs: "cs = map2 (\<lambda>x y. x - y) (a @ [0]) (0 # a)"
    using assms by (simp add: np_convolve_h_def a_def Let_def split: if_splits)
  have "list_all (\<lambda>x. x = 0 \<or> x = (1::int)) (0 # a)"
    by (auto simp: a_def list_all_iff)
  then have "list_all (\<lambda>c. c = -1 \<or> c = 0 \<or> c = 1) cs"
    unfolding cs by (rule diffs_range)
  then have "int (length (filter (\<lambda>c. c > 0) cs)) - int (length (filter (\<lambda>c. c < 0) cs)) = sum_list cs"
    by (rule signs_count)
  also have "\<dots> = 0" unfolding cs by (simp add: sum_list_diffs)
  finally show ?thesis
    by (simp add: length_np_nonzero length_filter_map comp_def)
qed

lemma np_take_length: "np_take xs idx = Inr ys \<Longrightarrow> length ys = length idx"
  by (auto simp: np_take_def split: if_splits)

lemma find_crossings_same_length:
  assumes "np_convolve_h above_th = Inr cs" "find_crossings cs time_bins = Inr (onsets, offsets)"
  shows "length onsets = length offsets"
  using assms(2) np_convolve_h_balanced[OF assms(1)]
  by (auto simp: find_crossings_def ebind_def Let_def dest!: np_take_length split: option.splits sum.splits)

lemma np_convolve_h_silent:
  assumes "above_th \<noteq> []" "list_all (\<lambda>b. \<not> b) above_th"
  shows "np_convolve_h above_th = Inr (replicate (Suc (length above_th)) 0)"
proof -
  have "map (\<lambda>b. if b then (1::int) else 0) above_th = replicate (length above_th) 0"
    using assms(2) by (induction above_th) auto
  then show ?thesis using assms(1)
    by (simp add: np_convolve_h_def Let_def replicate_append_same map_replicate_const zip_replicate flip: replicate_Suc)
qed

text \<open>
  The numbers of rising and falling edges agree, so \<open>onsets[1:] - offsets[:-1]\<close> and
  \<open>offsets - onsets\<close> in \<open>segment_song\<close> always subtract arrays of equal length.
\<close>

text \<open>
  Claim C1. For the envelope \<open>[0,0,6000,6000,6000,0,0,0,6000,6000,0,0]\<close> with threshold
  \<open>5000\<close>, sample rate \<open>1\<close>, \<open>min_silent_dur = 2\<close> and \<open>min_syl_dur = 2\<close>,
  \<open>segment_song\<close> returns exactly one segment, with onset \<open>2\<close> and offset \<open>5\<close>: the gap
  of \<open>3\<close> is longer than \<open>min_silent_dur\<close>, and the run of length \<open>2\<close> is not strictly
  longer than \<open>min_syl_dur\<close>.
\<close>

theorem segment_song_example:
  "segment_song [0, 0, 6000, 6000, 6000, 0, 0, 0, 6000, 6000, 0, 0]
     [''threshold'' \<mapsto> 5000, ''min_syl_dur'' \<mapsto> 2, ''min_silent_dur'' \<mapsto> 2]
     None (Some 1)
   = Inr (Some ([2], [5]))"
  by (simp add: segment_song_def ebind_def getitem_def np_convolve_h_def find_crossings_def
        np_nonzero_def merge_short_gaps_def drop_short_syls_def to_seconds_def)

text \<open>
  What the source does on a silent envelope: for every non-empty envelope whose values are
  all at or below the threshold, with exactly one axis supplied (and, in the time-bin form,
  an axis as long as the envelope), \<open>segment_song\<close> takes the early return of line 444.
\<close>

lemma segment_song_silent:
  assumes "amp \<noteq> []"
    and "segment_params ''threshold'' = Some threshold"
    and "list_all (\<lambda>a. a \<le> threshold) amp"
    and "(time_bins = None) \<noteq> (samp_freq = None)"
    and "case time_bins of Some tb \<Rightarrow> length tb = length amp | None \<Rightarrow> True"
  shows "segment_song amp segment_params time_bins samp_freq = Inr None"
proof -
  let ?above = "map (\<lambda>a. a > threshold) amp"
  have "?above \<noteq> []" using assms(1) by simp
  moreover have "list_all (\<lambda>b. \<not> b) ?above"
    using assms(3) by (simp add: list_all_iff not_less)
  ultimately have conv: "np_convolve_h ?above = Inr (replicate (Suc (length amp)) 0)"
    using np_convolve_h_silent[of ?above] by simp
  have cross: "find_crossings (replicate (Suc (length amp)) 0) time_bins = Inr ([], [])"
    by (simp add: find_crossings_def Let_def np_nonzero_all_False list_all_iff np_take_def ebind_def
          split: option.splits)
  show ?thesis
    using assms(2,4,5) conv cross
    by (auto simp: segment_song_def getitem_def ebind_def split: option.splits)
qed

text \<open>On the empty envelope \<open>np.convolve\<close> raises.\<close>

lemma segment_song_empty:
  "segment_song []
     [''threshold'' \<mapsto> 5000, ''min_syl_dur'' \<mapsto> 2, ''min_silent_dur'' \<mapsto> 2]
     None (Some 1) = Inl (ValueError ''v cannot be empty'')"
  by (simp add: segment_song_def ebind_def getitem_def np_convolve_h_def)

text \<open>
  Claim C2. The claim asks that an envelope with no value above the threshold yields empty
  onsets and empty offsets sequences. The source returns the pair \<open>None, None\<close> there (line
  444), where its docstring (lines 400 to 404) promises two arrays and where the path on
  which every segment is too short does return two empty arrays: the silent envelope
  \<open>[0, 0, 0]\<close> gives \<open>None, None\<close>, and the envelope \<open>[0, 6000, 0]\<close>, whose only segment is
  not longer than \<open>min_syl_dur\<close>, gives two empty arrays.
\<close>

theorem segment_song_silent_returns_None:
  "segment_song [0, 0, 0]
     [''threshold'' \<mapsto> 5000, ''min_syl_dur'' \<mapsto> 2, ''min_silent_dur'' \<mapsto> 2]
     None (Some 1) = Inr None
   \<and> segment_song [0, 6000, 0]
     [''threshold'' \<mapsto> 5000, ''min_syl_dur'' \<mapsto> 2, ''min_silent_dur'' \<mapsto> 2]
     None (Some 1) = Inr (Some ([], []))"
  by (simp add: segment_song_def ebind_def getitem_def np_convolve_h_def find_crossings_def
        np_nonzero_def merge_short_gaps_def drop_short_syls_def to_seconds_def)

text \<open>
  Claim C9. For every envelope, \<open>segment_song\<close> called with both the time-bin axis and the
  sample rate, or with neither, fails (the source raises \<open>ValueError\<close> with one of two
  messages about the axis); with exactly one of them it never fails with that error.
\<close>

theorem segment_song_axis:
  "(time_bins = None \<and> samp_freq = None \<longrightarrow>
      segment_song amp segment_params time_bins samp_freq = Inl (ValueError
        ''Values needed for either time_bins or samp_freq parameters needed to segment song.''))
   \<and> (time_bins \<noteq> None \<and> samp_freq \<noteq> None \<longrightarrow>
      segment_song amp segment_params time_bins samp_freq = Inl (ValueError
        ''Can only use one of time_bins or samp_freq to segment song, but values were passed for both parameters''))
   \<and> ((time_bins = None) \<noteq> (samp_freq = None) \<longrightarrow>
      segment_song amp segment_params time_bins samp_freq \<noteq> Inl (ValueError
        ''Values needed for either time_bins or samp_freq parameters needed to segment song.'')
      \<and> segment_song amp segment_params time_bins samp_freq \<noteq> Inl (ValueError
        ''Can only use one of time_bins or samp_freq to segment song, but values were passed for both parameters''))"
  by (auto simp: segment_song_def ebind_def getitem_def np_convolve_h_def find_crossings_def
        np_take_def Let_def split: option.splits sum.splits if_splits prod.splits)

theorem segment_song_axis_witness:
  "segment_song [0, 6000, 0] [''threshold'' \<mapsto> 5000] None None = Inl (ValueError
      ''Values needed for either time_bins or samp_freq parameters needed to segment song.'')
   \<and> segment_song [0, 6000, 0] [''threshold'' \<mapsto> 5000] (Some [0, 1, 2]) (Some 1) = Inl (ValueError
      ''Can only use one of time_bins or samp_freq to segment song, but values were passed for both parameters'')"
  using segment_song_axis [of None None "[0, 6000, 0]" "[''threshold'' \<mapsto> 5000]"]
    segment_song_axis [of "Some [0, 1, 2]" "Some 1" "[0, 6000, 0]" "[''threshold'' \<mapsto> 5000]"]
  by simp

section \<open>Properties of the spectrogram configuration\<close>

lemmas init_defs = Spectrogram_init_def init_params_def kwarg_def init_window_def
  init_freq_cutoffs_def init_filter_func_def init_spect_func_def init_thresh_def ebind_def
  num_of_def init_int_def init_log_transform_spect_def init_remove_dc_def py_float_def

lemmas make_defs = Spectrogram_make_def make_filter_def make_transform_def ebind_def
  example_lib_def example_transform_def crop_band_def

lemma Spectrogram_init_ints:
  assumes "Spectrogram_init lib kwargs = Inr sp"
  shows "kwarg kwargs ''nperseg'' PNone = PInt (nperseg sp)"
    and "kwarg kwargs ''noverlap'' PNone = PInt (noverlap sp)"
  using assms
  by (auto simp: Spectrogram_init_def ebind_def init_int_def
        split: if_splits sum.splits pyval.splits prod.splits)

lemma Spectrogram_init_defaults:
  "Spectrogram_init lib [(''nperseg'', PInt n), (''noverlap'', PInt m)] =
     Inr \<lparr>nperseg = n, noverlap = m, window = None, freqCutoffs = Some [500, 10000],
          filterFunc = None, spectFunc = ''scipy'', logTransformSpect = True,
          thresh = Some (Some (- 4)), tresh = None, remove_dc = True\<rparr>"
  by (simp add: init_defs)

text \<open>
  Claim C7, as amended. The constructor checks that \<open>nperseg\<close> and \<open>noverlap\<close> are given and
  are of type \<open>int\<close>, and nothing about their values: whenever construction succeeds both
  arguments are ints, and with every other argument at its default construction succeeds
  for every pair of ints, whatever their sign or order.
\<close>

theorem Spectrogram_init_checks_types_only:
  "(Spectrogram_init lib kwargs = Inr sp \<longrightarrow>
      kwarg kwargs ''nperseg'' PNone = PInt (nperseg sp) \<and>
      kwarg kwargs ''noverlap'' PNone = PInt (noverlap sp))
   \<and> (\<exists>sp'. Spectrogram_init lib [(''nperseg'', PInt n), (''noverlap'', PInt m)] = Inr sp'
          \<and> nperseg sp' = n \<and> noverlap sp' = m)"
  using Spectrogram_init_ints [of lib kwargs sp] by (simp add: Spectrogram_init_defaults)

theorem Spectrogram_init_checks_types_only_witness:
  "kwarg [(''nperseg'', PInt 128), (''noverlap'', PInt 512)] ''nperseg'' PNone = PInt 128
   \<and> (\<exists>sp'. Spectrogram_init example_lib [(''nperseg'', PInt 128), (''noverlap'', PInt 512)]
          = Inr sp' \<and> nperseg sp' = 128 \<and> noverlap sp' = 512)"
  using Spectrogram_init_checks_types_only [of example_lib
      "[(''nperseg'', PInt 128), (''noverlap'', PInt 512)]"
      "\<lparr>nperseg = 128, noverlap = 512, window = None, freqCutoffs = Some [500, 10000],
        filterFunc = None, spectFunc = ''scipy'', logTransformSpect = True,
        thresh = Some (Some (- 4)), tresh = None, remove_dc = True\<rparr>" 128 512]
  by (simp add: Spectrogram_init_defaults)

text \<open>
  The claim as stated fails: a segment length of \<open>0\<close> with an overlap of \<open>0\<close> (neither
  positive, nor overlap below segment length) is accepted at construction.
\<close>

theorem Spectrogram_init_range_counterexample:
  "Spectrogram_init example_lib [(''nperseg'', PInt 0), (''noverlap'', PInt 0)] =
     Inr \<lparr>nperseg = 0, noverlap = 0, window = None, freqCutoffs = Some [500, 10000],
          filterFunc = None, spectFunc = ''scipy'', logTransformSpect = True,
          thresh = Some (Some (- 4)), tresh = None, remove_dc = True\<rparr>"
  by (simp add: init_defs)

text \<open>
  Claim C8. The claim asks for a preset identifier (\<open>ref\<close>) accepted in place of the explicit
  fields, as the tests of the repository call it. The constructor of the source has no such
  parameter: the call \<open>Spectrogram(ref='tachibana')\<close> raises \<open>TypeError\<close>, and so does
  \<open>Spectrogram(nperseg=512, ref='tachibana')\<close>, which the tests expect to warn only.
\<close>

theorem Spectrogram_init_ref_rejected:
  "Spectrogram_init lib [(''ref'', PStr ''tachibana'')] =
     Inl (TypeError ''__init__() got an unexpected keyword argument'')
   \<and> Spectrogram_init lib [(''ref'', PStr ''koumura'')] =
     Inl (TypeError ''__init__() got an unexpected keyword argument'')
   \<and> Spectrogram_init lib [(''nperseg'', PInt 512), (''ref'', PStr ''tachibana'')] =
     Inl (TypeError ''__init__() got an unexpected keyword argument'')"
  by (simp add: Spectrogram_init_def init_params_def)

text \<open>
  Claim C6. The claim asks that an object whose construction succeeded can always apply the
  clamp in \<open>make\<close>. With an integer threshold the constructor succeeds but stores the
  converted value as \<open>tresh\<close>, so the object has no attribute \<open>thresh\<close>, and \<open>make\<close> raises
  \<open>AttributeError\<close> once the transform has been computed.
\<close>

theorem Spectrogram_make_thresh_missing:
  "Spectrogram_init example_lib
     [(''nperseg'', PInt 4), (''noverlap'', PInt 2), (''thresh'', PInt (- 4))] =
     Inr \<lparr>nperseg = 4, noverlap = 2, window = None, freqCutoffs = Some [500, 10000],
          filterFunc = None, spectFunc = ''scipy'', logTransformSpect = True,
          thresh = None, tresh = Some (- 4), remove_dc = True\<rparr>
   \<and> Spectrogram_make example_lib
       \<lparr>nperseg = 4, noverlap = 2, window = None, freqCutoffs = Some [500, 10000],
        filterFunc = None, spectFunc = ''scipy'', logTransformSpect = True,
        thresh = None, tresh = Some (- 4), remove_dc = True\<rparr>
       [1, 2, 3, 4, 5, 6] 32000 =
     Inl (AttributeError ''Spectrogram object has no attribute thresh'')"
  by (simp add: init_defs make_defs)

section \<open>Properties of \<open>make_syl_spects\<close>\<close>

lemma floor_half: "\<lfloor>real_of_int k / 2\<rfloor> = k div 2"
  using floor_divide_of_int_eq [of k 2, where ?'a = real] by simp

lemma frac_half: "real_of_int k / 2 - real_of_int (k div 2) = real_of_int (k mod 2) / 2"
proof -
  have "k = 2 * (k div 2) + k mod 2" by simp
  then have "real_of_int k = 2 * real_of_int (k div 2) + real_of_int (k mod 2)"
    by (metis of_int_add of_int_mult of_int_numeral)
  then show ?thesis by (simp add: field_simps)
qed

lemma round_half_even_half:
  "round_half_even (real_of_int k / 2) =
     (if k mod 2 = 0 then k div 2 else if even (k div 2) then k div 2 else k div 2 + 1)"
proof -
  have unfolded: "round_half_even (real_of_int k / 2) =
      (if real_of_int (k mod 2) / 2 < 1 / 2 then k div 2
       else if 1 / 2 < real_of_int (k mod 2) / 2 then k div 2 + 1
       else if even (k div 2) then k div 2 else k div 2 + 1)"
    unfolding round_half_even_def Let_def floor_half frac_half ..
  have "k mod 2 = 0 \<or> k mod 2 = 1" by presburger
  then show ?thesis
  proof
    assume "k mod 2 = 0" then show ?thesis unfolding unfolded by simp
  next
    assume "k mod 2 = 1" then show ?thesis unfolding unfolded by simp
  qed
qed

lemma left_width_cases:
  "left_width k = (if k mod 4 = 3 then k div 2 + 1 else k div 2)"
proof -
  have "k mod 4 = 3 \<longleftrightarrow> k mod 2 \<noteq> 0 \<and> odd (k div 2)" by presburger
  then show ?thesis unfolding left_width_def round_half_even_half by simp
qed

lemma py_slice_inrange:
  "0 \<le> a \<Longrightarrow> a \<le> b \<Longrightarrow> b \<le> int (length xs) \<Longrightarrow>
   py_slice xs a (Some b) = take (nat (b - a)) (drop (nat a) xs)"
  by (simp add: py_slice_def Let_def min_def)

text \<open>
  Claim C3, as amended. For a segment of duration \<open>d = offset - onset\<close> strictly below the
  fixed width \<open>w\<close>, away from the boundaries of the recording (the left padding fits before
  the onset and the right padding fits before the end), the audio slice has exactly \<open>w\<close>
  samples and starts \<open>left_width (w - d)\<close> samples before the onset, where the left padding
  is \<open>(w - d) / 2\<close> rounded to the nearest integer with ties to even: it is
  \<open>floor ((w - d) / 2)\<close> unless \<open>(w - d) mod 4 = 3\<close>, where it is one more and the extra
  sample is on the left.
\<close>

theorem syl_audio_centered:
  assumes "0 \<le> w" and "offset - onset < w"
    and "left_width (w - (offset - onset)) \<le> onset"
    and "offset + (w - (offset - onset) - left_width (w - (offset - onset))) \<le> int (length raw_audio)"
  shows "syl_audio raw_audio (Some w) onset offset =
           take (nat w) (drop (nat (onset - left_width (w - (offset - onset)))) raw_audio)
         \<and> length (syl_audio raw_audio (Some w) onset offset) = nat w
         \<and> left_width (w - (offset - onset)) =
             (if (w - (offset - onset)) mod 4 = 3 then (w - (offset - onset)) div 2 + 1
              else (w - (offset - onset)) div 2)"
proof -
  define l where "l = left_width (w - (offset - onset))"
  have a3: "l \<le> onset" and a4: "offset + (w - (offset - onset) - l) \<le> int (length raw_audio)"
    using assms(3,4) by (simp_all add: l_def)
  have hi: "offset + (w - (offset - onset) - l) = onset - l + w" by simp
  have sl: "syl_audio raw_audio (Some w) onset offset =
      py_slice raw_audio (onset - l) (Some (onset - l + w))"
    using a3 a4 by (simp add: syl_audio_def Let_def l_def [symmetric] hi)
  have "py_slice raw_audio (onset - l) (Some (onset - l + w)) =
      take (nat (onset - l + w - (onset - l))) (drop (nat (onset - l)) raw_audio)"
    using a3 a4 assms(1) by (intro py_slice_inrange) simp_all
  then have eq: "syl_audio raw_audio (Some w) onset offset =
      take (nat w) (drop (nat (onset - l)) raw_audio)"
    using sl by simp
  have len: "length (take (nat w) (drop (nat (onset - l)) raw_audio)) = nat w"
    using a3 a4 assms(1) by simp
  have c1: "syl_audio raw_audio (Some w) onset offset =
      take (nat w) (drop (nat (onset - left_width (w - (offset - onset)))) raw_audio)"
    using eq unfolding l_def .
  have c2: "length (syl_audio raw_audio (Some w) onset offset) = nat w"
    using eq len by simp
  show ?thesis
    using c1 c2 left_width_cases [of "w - (offset - onset)"] by blast
qed

text \<open>
  The claim as stated fails when the padding difference is \<open>3\<close>: the left padding is \<open>2\<close>,
  not \<open>floor (3 / 2) = 1\<close>, and the slice starts two samples before the onset.
\<close>

theorem syl_audio_centered_counterexample:
  "left_width (5 - (6 - 4)) = 2 \<and> (5 - (6 - 4)) div 2 = (1::int)
   \<and> syl_audio [0, 1, 2, 3, 4, 5, 6, 7, 8, 9, 10, 11] (Some 5) 4 6 = [2, 3, 4, 5, 6]"
  by (simp add: left_width_cases syl_audio_def py_slice_def Let_def)

theorem syl_audio_centered_witness:
  "syl_audio [0, 1, 2, 3, 4, 5, 6, 7, 8, 9, 10, 11] (Some 6) 4 6 = [2, 3, 4, 5, 6, 7]
   \<and> length (syl_audio [0, 1, 2, 3, 4, 5, 6, 7, 8, 9, 10, 11] (Some 6) 4 6) = 6
   \<and> left_width (6 - (6 - 4)) = 2"
  using syl_audio_centered [of 6 6 4 "[0, 1, 2, 3, 4, 5, 6, 7, 8, 9, 10, 11]"]
  by (simp add: left_width_cases)

text \<open>The loop over the segments.\<close>

lemma make_syl_result:
  assumes "case Spectrogram_make lib spect_maker audio (sampFreq self) of
             Inl e \<Rightarrow> e = WindowError | Inr r \<Rightarrow> True"
  shows "make_syl lib self spect_maker audio ind lab =
     Inr \<lparr>sylAudio = audio, syl_sampFreq = sampFreq self,
          spect = (case Spectrogram_make lib spect_maker audio (sampFreq self) of
                     Inr (sp, freq_bins, time_bins) \<Rightarrow> Val sp | Inl e \<Rightarrow> NaN),
          nfft = nperseg spect_maker, overlap = noverlap spect_maker,
          syl_freqCutoffs = freqCutoffs spect_maker,
          freqBins = (case Spectrogram_make lib spect_maker audio (sampFreq self) of
                        Inr (sp, freq_bins, time_bins) \<Rightarrow> Val freq_bins | Inl e \<Rightarrow> NaN),
          timeBins = (case Spectrogram_make lib spect_maker audio (sampFreq self) of
                        Inr (sp, freq_bins, time_bins) \<Rightarrow> Val time_bins | Inl e \<Rightarrow> NaN),
          index = ind, label = lab\<rparr>"
  using assms by (auto simp: make_syl_def ebind_def split: sum.splits)

lemma make_syls_recover:
  assumes "list_all (\<lambda>(ind, lab, onset, offset).
             ind < length use
             \<and> (case width of Some w \<Rightarrow> offset - onset \<le> w | None \<Rightarrow> True)
             \<and> (case Spectrogram_make lib spect_maker
                        (syl_audio (rawAudio self) width onset offset) (sampFreq self) of
                   Inl e \<Rightarrow> e = WindowError \<or> \<not> use ! ind | Inr r \<Rightarrow> True)) segs"
  shows "make_syls lib self spect_maker width use segs =
     Inr (map (\<lambda>(ind, lab, onset, offset).
            \<lparr>sylAudio = syl_audio (rawAudio self) width onset offset,
             syl_sampFreq = sampFreq self,
             spect = (case Spectrogram_make lib spect_maker
                             (syl_audio (rawAudio self) width onset offset) (sampFreq self) of
                        Inr (sp, freq_bins, time_bins) \<Rightarrow> Val sp | Inl e \<Rightarrow> NaN),
             nfft = nperseg spect_maker, overlap = noverlap spect_maker,
             syl_freqCutoffs = freqCutoffs spect_maker,
             freqBins = (case Spectrogram_make lib spect_maker
                             (syl_audio (rawAudio self) width onset offset) (sampFreq self) of
                           Inr (sp, freq_bins, time_bins) \<Rightarrow> Val freq_bins | Inl e \<Rightarrow> NaN),
             timeBins = (case Spectrogram_make lib spect_maker
                             (syl_audio (rawAudio self) width onset offset) (sampFreq self) of
                           Inr (sp, freq_bins, time_bins) \<Rightarrow> Val time_bins | Inl e \<Rightarrow> NaN),
             index = ind, label = lab\<rparr>)
          (filter (\<lambda>(ind, lab, onset, offset). use ! ind) segs))"
  using assms
proof (induction segs)
  case Nil
  then show ?case by simp
next
  case (Cons seg segs)
  obtain ind lab onset offset where seg: "seg = (ind, lab, onset, offset)"
    by (cases seg) auto
  from Cons.prems have tail_ok: "list_all (\<lambda>(ind, lab, onset, offset).
             ind < length use
             \<and> (case width of Some w \<Rightarrow> offset - onset \<le> w | None \<Rightarrow> True)
             \<and> (case Spectrogram_make lib spect_maker
                        (syl_audio (rawAudio self) width onset offset) (sampFreq self) of
                   Inl e \<Rightarrow> e = WindowError \<or> \<not> use ! ind | Inr r \<Rightarrow> True)) segs"
    by simp
  note rest = Cons.IH [OF tail_ok]
  have here: "ind < length use"
    "\<not> (case width of Some w \<Rightarrow> offset - onset > w | None \<Rightarrow> False)"
    using Cons.prems seg by (auto split: option.splits)
  show ?case
  proof (cases "use ! ind")
    case True
    then have "case Spectrogram_make lib spect_maker
                 (syl_audio (rawAudio self) width onset offset) (sampFreq self) of
               Inl e \<Rightarrow> e = WindowError | Inr r \<Rightarrow> True"
      using Cons.prems seg by (auto split: sum.splits)
    from make_syl_result [OF this, of ind lab] True here rest show ?thesis
      by (simp add: seg ebind_def)
  next
    case False
    with here rest show ?thesis by (simp add: seg)
  qed
qed

lemma make_syls_too_long:
  assumes "(ind, lab, onset, offset) \<in> set segs" and "offset - onset > w"
  shows "\<exists>e. make_syls lib self spect_maker (Some w) use segs = Inl e"
  using assms
proof (induction segs)
  case Nil
  then show ?case by simp
next
  case (Cons seg segs)
  obtain i l a b where seg: "seg = (i, l, a, b)" by (cases seg) auto
  show ?case
  proof (cases "seg = (ind, lab, onset, offset)")
    case True
    with Cons.prems seg show ?thesis by simp
  next
    case False
    with Cons obtain e where "make_syls lib self spect_maker (Some w) use segs = Inl e"
      by auto
    then show ?thesis by (auto simp: seg ebind_def split: sum.splits)
  qed
qed

lemma make_syls_too_long_deselected:
  assumes "list_all (\<lambda>(ind, lab, onset, offset). ind < length use \<and> \<not> use ! ind) segs"
    and "\<not> list_all (\<lambda>(ind, lab, onset, offset). offset - onset \<le> w) segs"
  shows "make_syls lib self spect_maker (Some w) use segs = Inl (ValueError
    ''syllable duration of syllable {} with label {} in file {} is greater than width specified for all syllable spectrograms.'')"
  using assms
proof (induction segs)
  case Nil
  then show ?case by simp
next
  case (Cons seg segs)
  obtain i l a b where seg: "seg = (i, l, a, b)" by (cases seg) auto
  with Cons show ?case by (cases "b - a > w") auto
qed

text \<open>
  Claim C4. When the spectrogram of a selected segment raises the window-too-long error
  (\<open>WindowError\<close>) and nothing else fails (the mask covers every segment, no segment is
  longer than the fixed width, and \<open>make\<close> raises no other exception on a selected
  segment), \<open>make_syl_spects\<close> does not propagate the error, whatever \<open>set_syl_spects\<close> and
  \<open>return_spects\<close> are: the syllable list it builds has one entry for each selected
  segment, in order; the entry of a segment whose spectrogram raised \<open>WindowError\<close> has
  \<open>np.nan\<close> as spectrogram, frequency bins and time bins, and every other entry holds the
  result of \<open>make\<close> on the segment's audio. That list is stored on the song when
  \<open>set_syl_spects\<close> is set, and the call returns \<open>None\<close>, or, when \<open>return_spects\<close> is set,
  what \<open>np.stack\<close> makes of the spectrograms of that list.
\<close>

theorem make_syl_spects_window_error:
  assumes "syls_to_use self = Some use"
    and "syl_spect_width_Hz lib self syl_spect_width = Inr width"
    and "Spectrogram_init lib spect_params = Inr spect_maker"
    and "segs = enumerate 0 (zip (labels self) (zip (onsets_Hz self) (offsets_Hz self)))"
    and "list_all (\<lambda>(ind, lab, onset, offset).
             ind < length use
             \<and> (case width of Some w \<Rightarrow> offset - onset \<le> w | None \<Rightarrow> True)
             \<and> (case Spectrogram_make lib spect_maker
                        (syl_audio (rawAudio self) width onset offset) (sampFreq self) of
                   Inl e \<Rightarrow> e = WindowError \<or> \<not> use ! ind | Inr r \<Rightarrow> True)) segs"
  shows "\<exists>all_syls.
      make_syl_spects lib io self spect_params syl_spect_width set_syl_spects return_spects =
        (if set_syl_spects then self\<lparr>syls := Some all_syls\<rparr> else self,
         if return_spects then ebind (np_stack io (map spect all_syls)) (\<lambda>st. Inr (Some st))
         else Inr None)
      \<and> length all_syls = length (filter (\<lambda>(ind, lab, onset, offset). use ! ind) segs)
      \<and> all_syls =
          map (\<lambda>(ind, lab, onset, offset).
            \<lparr>sylAudio = syl_audio (rawAudio self) width onset offset,
             syl_sampFreq = sampFreq self,
             spect = (case Spectrogram_make lib spect_maker
                             (syl_audio (rawAudio self) width onset offset) (sampFreq self) of
                        Inr (sp, freq_bins, time_bins) \<Rightarrow> Val sp | Inl e \<Rightarrow> NaN),
             nfft = nperseg spect_maker, overlap = noverlap spect_maker,
             syl_freqCutoffs = freqCutoffs spect_maker,
             freqBins = (case Spectrogram_make lib spect_maker
                             (syl_audio (rawAudio self) width onset offset) (sampFreq self) of
                           Inr (sp, freq_bins, time_bins) \<Rightarrow> Val freq_bins | Inl e \<Rightarrow> NaN),
             timeBins = (case Spectrogram_make lib spect_maker
                             (syl_audio (rawAudio self) width onset offset) (sampFreq self) of
                           Inr (sp, freq_bins, time_bins) \<Rightarrow> Val time_bins | Inl e \<Rightarrow> NaN),
             index = ind, label = lab\<rparr>)
          (filter (\<lambda>(ind, lab, onset, offset). use ! ind) segs)"
proof -
  note loop = make_syls_recover [OF assms(5)]
  have run: "ebind (syl_spect_width_Hz lib self syl_spect_width) (\<lambda>width.
               ebind (Spectrogram_init lib spect_params) (\<lambda>spect_maker.
                 make_syls lib self spect_maker width use
                   (enumerate 0 (zip (labels self) (zip (onsets_Hz self) (offsets_Hz self))))))
             = make_syls lib self spect_maker width use segs"
    using assms(2,3,4) by (simp add: ebind_def)
  show ?thesis
    unfolding make_syl_spects_def assms(1) option.case run loop
    by (simp add: Let_def)
qed

text \<open>
  Claim C10. With a positive fixed width, a song that has any segment longer than the width
  in samples (the truncated float product of the width and the sampling frequency) makes \<open>make_syl_spects\<close> raise and leaves the song unchanged, whatever the
  selection mask says about that segment: the duration test of lines 874 to 880 comes
  before the test of the mask.
\<close>

theorem make_syl_spects_too_long:
  assumes "0 < syl_spect_width"
    and "(ind, lab, onset, offset) \<in>
           set (enumerate 0 (zip (labels self) (zip (onsets_Hz self) (offsets_Hz self))))"
    and "offset - onset > int_trunc (float_mul lib syl_spect_width (sampFreq self))"
  shows "\<exists>e. make_syl_spects lib io self spect_params syl_spect_width set_syl_spects
               return_spects = (self, Inl e)"
proof (cases "syls_to_use self")
  case None
  then show ?thesis by (simp add: make_syl_spects_def)
next
  case (Some use)
  show ?thesis
  proof (cases "syl_spect_width_Hz lib self syl_spect_width")
    case (Inl e)
    with Some show ?thesis by (simp add: make_syl_spects_def ebind_def)
  next
    case (Inr width)
    then have width: "width = Some (int_trunc (float_mul lib syl_spect_width (sampFreq self)))"
      using assms(1) by (auto simp: syl_spect_width_Hz_def Let_def split: if_splits)
    show ?thesis
    proof (cases "Spectrogram_init lib spect_params")
      case (Inl e)
      with Some Inr show ?thesis by (simp add: make_syl_spects_def ebind_def)
    next
      case init: (Inr spect_maker)
      from make_syls_too_long [OF assms(2,3)]
      obtain e where "make_syls lib self spect_maker
          (Some (int_trunc (float_mul lib syl_spect_width (sampFreq self)))) use
          (enumerate 0 (zip (labels self) (zip (onsets_Hz self) (offsets_Hz self)))) = Inl e"
        by blast
      with Some Inr init width show ?thesis
        by (simp add: make_syl_spects_def ebind_def)
    qed
  qed
qed

text \<open>
  The example song with two selected segments and a segment length of three samples: the
  first segment has two samples, so its spectrogram raises \<open>WindowError\<close>.
\<close>

lemma example_make_short:
  "Spectrogram_make example_lib
     \<lparr>nperseg = 3, noverlap = 1, window = None, freqCutoffs = Some [500, 10000],
      filterFunc = None, spectFunc = ''scipy'', logTransformSpect = False,
      thresh = Some None, tresh = None, remove_dc = True\<rparr> [4, 5] 1 = Inl WindowError"
  by (simp add: make_defs)

lemma example_make_long:
  "Spectrogram_make example_lib
     \<lparr>nperseg = 3, noverlap = 1, window = None, freqCutoffs = Some [500, 10000],
      filterFunc = None, spectFunc = ''scipy'', logTransformSpect = False,
      thresh = Some None, tresh = None, remove_dc = True\<rparr> [8, 9, 10] 1 =
   Inr ([[Finite 0, Finite 2], [Finite 3, Finite 0]], [4000, 8000], [0, 1])"
  by (simp add: make_defs np_nonzero_def np_take_def)

lemma example_segments:
  "enumerate 0 (zip (labels example_song) (zip (onsets_Hz example_song) (offsets_Hz example_song)))
   = [(0, ''a'', 4, 6), (1, ''b'', 8, 11)]"
  by (simp add: example_song_def)

theorem make_syl_spects_window_error_witness:
  "make_syl_spects example_lib example_io (example_song\<lparr>syls_to_use := Some [True, True]\<rparr>)
     [(''nperseg'', PInt 3), (''noverlap'', PInt 1), (''log_transform_spect'', PBool False),
      (''thresh'', PNone)] (- 1) True False
   = (example_song\<lparr>syls_to_use := Some [True, True],
        syls := Some
          [\<lparr>sylAudio = [4, 5], syl_sampFreq = 1, spect = NaN, nfft = 3, overlap = 1,
            syl_freqCutoffs = Some [500, 10000], freqBins = NaN, timeBins = NaN,
            index = 0, label = ''a''\<rparr>,
           \<lparr>sylAudio = [8, 9, 10], syl_sampFreq = 1,
            spect = Val [[Finite 0, Finite 2], [Finite 3, Finite 0]], nfft = 3, overlap = 1,
            syl_freqCutoffs = Some [500, 10000], freqBins = Val [4000, 8000],
            timeBins = Val [0, 1], index = 1, label = ''b''\<rparr>]\<rparr>,
      Inr None)"
proof -
  let ?self = "example_song\<lparr>syls_to_use := Some [True, True]\<rparr>"
  let ?maker = "\<lparr>nperseg = 3, noverlap = 1, window = None, freqCutoffs = Some [500, 10000],
      filterFunc = None, spectFunc = ''scipy'', logTransformSpect = False,
      thresh = Some None, tresh = None, remove_dc = True\<rparr>"
  have h1: "syls_to_use ?self = Some [True, True]" by simp
  have h2: "syl_spect_width_Hz example_lib ?self (- 1) = Inr None"
    by (simp add: syl_spect_width_Hz_def)
  have h3: "Spectrogram_init example_lib
       [(''nperseg'', PInt 3), (''noverlap'', PInt 1), (''log_transform_spect'', PBool False),
        (''thresh'', PNone)] = Inr ?maker"
    by (simp add: init_defs)
  have h4: "[(0, ''a'', 4, 6), (1, ''b'', 8, 11)] =
      enumerate 0 (zip (labels ?self) (zip (onsets_Hz ?self) (offsets_Hz ?self)))"
    by (simp add: example_song_def)
  have a1: "syl_audio (rawAudio example_song) None 4 6 = [4, 5]"
    and a2: "syl_audio (rawAudio example_song) None 8 11 = [8, 9, 10]"
    by (simp_all add: example_song_def syl_audio_def py_slice_def Let_def)
  have sf: "sampFreq example_song = 1" by (simp add: example_song_def)
  have h5: "list_all (\<lambda>(ind, lab, onset, offset).
             ind < length [True, True]
             \<and> (case None of Some w \<Rightarrow> offset - onset \<le> w | None \<Rightarrow> True)
             \<and> (case Spectrogram_make example_lib ?maker
                        (syl_audio (rawAudio ?self) None onset offset) (sampFreq ?self) of
                   Inl e \<Rightarrow> e = WindowError \<or> \<not> [True, True] ! ind | Inr r \<Rightarrow> True))
           [(0, ''a'', 4, 6), (1, ''b'', 8, 11)]"
    by (simp add: a1 a2 sf example_make_short example_make_long)
  from make_syl_spects_window_error [OF h1 h2 h3 h4 h5, of example_io True False]
  show ?thesis
    by (simp add: a1 a2 sf example_make_short example_make_long)
qed

text \<open>
  The example song with a fixed width of two samples: the second segment has three samples
  and is deselected.
\<close>

theorem make_syl_spects_too_long_witness:
  "0 < (2::real)
   \<and> (1, ''b'', 8, 11) \<in> set (enumerate 0 (zip (labels example_song)
          (zip (onsets_Hz example_song) (offsets_Hz example_song))))
   \<and> 11 - 8 > int_trunc (float_mul example_lib 2 (sampFreq example_song))
   \<and> (\<exists>e. make_syl_spects example_lib example_io
             (example_song\<lparr>syls_to_use := Some [True, False]\<rparr>)
             [(''nperseg'', PInt 3), (''noverlap'', PInt 1)] 2 True False
           = (example_song\<lparr>syls_to_use := Some [True, False]\<rparr>, Inl e))"
  using make_syl_spects_too_long [of 2 1 "''b''" 8 11
      "example_song\<lparr>syls_to_use := Some [True, False]\<rparr>" example_lib example_io
      "[(''nperseg'', PInt 3), (''noverlap'', PInt 1)]" True False]
  by (simp add: example_song_def example_lib_def int_trunc_def)

lemma make_syl_spects_too_long_example:
  "make_syl_spects example_lib example_io (example_song\<lparr>syls_to_use := Some [False, False]\<rparr>)
     [(''nperseg'', PInt 3), (''noverlap'', PInt 1)] 2 True False
   = (example_song\<lparr>syls_to_use := Some [False, False]\<rparr>, Inl (ValueError
    ''syllable duration of syllable {} with label {} in file {} is greater than width specified for all syllable spectrograms.''))"
  by (simp add: make_syl_spects_def syl_spect_width_Hz_def int_trunc_def ebind_def
        Spectrogram_init_defaults example_song_def example_lib_def Let_def)

text \<open>
  The syllable list is stored before \<open>np.stack\<close> is called, so asking for the stacked
  spectrograms as well changes the returned value only, also when \<open>np.stack\<close> raises.
\<close>

lemma make_syl_spects_stores_first:
  "fst (make_syl_spects lib io self spect_params syl_spect_width set_syl_spects True) =
   fst (make_syl_spects lib io self spect_params syl_spect_width set_syl_spects False)"
  by (simp add: make_syl_spects_def Let_def split: option.splits sum.splits)

section \<open>Properties of \<open>Song.__init__\<close>\<close>

text \<open>The example song is what the constructor builds from the example collaborators.\<close>

lemma Song_init_example: "Song_init example_lib example_io ''song.cbin'' ''evtaf''
     (Some [''threshold'' \<mapsto> 1500, ''min_syl_dur'' \<mapsto> 0.01, ''min_silent_dur'' \<mapsto> 0.006])
     True None None = Inr example_song"
  by (simp add: Song_init_def load_audio_def load_annotation_def check_segment_params_def
       example_io_def example_lib_def example_notmat_def example_song_def new_song_def
       annot_path_def ebind_def getitem_def round_half_even_def Let_def)

text \<open>
  The caller of \<open>segment_song\<close>: on the fresh-segmentation path a recording whose smoothed
  amplitude never exceeds the threshold makes \<open>segment_song\<close> return \<open>None, None\<close>, and line
  731 then raises \<open>TypeError\<close>.
\<close>

lemma Song_init_silent_recording:
  "Song_init example_lib example_io ''song.cbin'' ''evtaf''
     (Some [''threshold'' \<mapsto> 5000, ''min_syl_dur'' \<mapsto> 2, ''min_silent_dur'' \<mapsto> 2])
     False None (Some []) =
   Inl (TypeError ''unsupported operand type(s) for *: NoneType and float'')"
  by (simp add: Song_init_def load_audio_def segment_fresh_def example_io_def ebind_def
        segment_song_def getitem_def np_convolve_h_def find_crossings_def np_nonzero_def)

text \<open>
  Only the \<open>evtaf\<close> format records segmentation parameters in its annotation; for the other
  formats the constructor does not look at \<open>segment_params\<close> on the annotation path.
\<close>

lemma Song_init_other_formats_unchecked:
  assumes "file_format \<noteq> ''evtaf''"
  shows "Song_init lib io fname file_format segment_params True annote_filename spect_params =
         Song_init lib io fname file_format segment_params' True annote_filename spect_params"
  using assms by (simp add: Song_init_def load_annotation_def)

text \<open>
  Claim C5. For every song constructed on the annotation path from an annotation that
  records segmentation parameters (an \<open>evtaf\<close> song whose audio and \<open>.not.mat\<close> file load),
  with the three segmentation parameters supplied: when the recorded threshold differs from
  the supplied one, or the recorded minimum duration or minimum gap, converted from
  milliseconds to seconds by the float division of lines 628 and 632, differs from the
  supplied one, construction fails with \<open>SegmentParametersMismatchError\<close>, whose message
  names the first field that differs.
\<close>

theorem Song_init_mismatch:
  assumes "load_cbin io fname = Inr (raw_audio, samp_freq)"
    and "load_notmat io (annot_path annote_filename fname) = Inr song_dict"
    and "sp ''threshold'' = Some threshold"
    and "sp ''min_syl_dur'' = Some min_syl_dur"
    and "sp ''min_silent_dur'' = Some min_silent_dur"
  shows "(threshold \<noteq> nm_threshold song_dict \<longrightarrow>
            Song_init lib io fname ''evtaf'' (Some sp) True annote_filename spect_params =
            Inl (SegmentParametersMismatchError
              ''threshold parameter for {} does not match parameter value for segment_params[threshold].''))
       \<and> (threshold = nm_threshold song_dict
            \<and> min_syl_dur \<noteq> float_div lib (nm_min_dur song_dict) 1000 \<longrightarrow>
            Song_init lib io fname ''evtaf'' (Some sp) True annote_filename spect_params =
            Inl (SegmentParametersMismatchError
              ''min_dur parameter for {} does not match parameter value for segment_params[min_syl_dur].''))
       \<and> (threshold = nm_threshold song_dict
            \<and> min_syl_dur = float_div lib (nm_min_dur song_dict) 1000
            \<and> min_silent_dur \<noteq> float_div lib (nm_min_int song_dict) 1000 \<longrightarrow>
            Song_init lib io fname ''evtaf'' (Some sp) True annote_filename spect_params =
            Inl (SegmentParametersMismatchError
              ''min_int parameter for {} does not match parameter value for segment_params[min_silent_dur].''))"
  using assms
  by (simp add: Song_init_def load_audio_def load_annotation_def check_segment_params_def
        ebind_def getitem_def)

theorem Song_init_mismatch_witness:
  "Song_init example_lib example_io ''song.cbin'' ''evtaf''
     (Some [''threshold'' \<mapsto> 2000, ''min_syl_dur'' \<mapsto> 0.01, ''min_silent_dur'' \<mapsto> 0.006])
     True None None =
   Inl (SegmentParametersMismatchError
     ''threshold parameter for {} does not match parameter value for segment_params[threshold].'')"
  using Song_init_mismatch [of example_io "''song.cbin''" "[0, 1, 2, 3, 4, 5, 6, 7, 8, 9, 10, 11]" 1
      None example_notmat
      "[''threshold'' \<mapsto> 2000, ''min_syl_dur'' \<mapsto> 0.01, ''min_silent_dur'' \<mapsto> 0.006]"
      2000 "0.01" "0.006" example_lib None]
  by (simp add: example_io_def example_notmat_def)

end
